theory Spec2Isabelle
  imports Complex_Main "HOL-Library.Multiset"
begin

section \<open>Python's \<^verbatim>\<open>Decimal\<close> in the default context\<close>

text \<open>
  \<^verbatim>\<open>crypto_bot.py\<close> keeps every amount as a \<^verbatim>\<open>decimal.Decimal\<close> and never changes the
  context, so all arithmetic runs in Python's default context: precision 28,
  rounding \<^verbatim>\<open>ROUND_HALF_EVEN\<close>, traps on \<^verbatim>\<open>InvalidOperation\<close>, \<^verbatim>\<open>DivisionByZero\<close> and
  \<^verbatim>\<open>Overflow\<close>. A finite decimal is a signed coefficient and an exponent
  (\<open>Fin m e\<close> is \<open>m * 10^e\<close>); the special values are the infinities and the quiet and
  signalling NaN. The sign of a zero is not kept (it never decides a comparison), and the
  exponent limits \<^verbatim>\<open>Emin = -999999\<close>, \<^verbatim>\<open>Emax = 999999\<close> are not modelled: in the two
  handlers every product and quotient is quantized at once, and \<open>quantize\<close> already
  raises on a result of more than 28 digits.
\<close>

datatype decimal = Fin int int | Inf bool | NaN bool
  \<comment> \<open>\<open>Inf True\<close> is \<open>-Infinity\<close>; \<open>NaN True\<close> is the signalling \<open>sNaN\<close>\<close>

datatype pyexc = InvalidOperation | DivisionByZero

definition prec :: nat where
  "prec = 28"

fun ndigits :: "int \<Rightarrow> nat" where
  \<comment> \<open>the number of decimal digits of a coefficient (\<^verbatim>\<open>len(self._int)\<close>), for \<open>n \<ge> 0\<close>\<close>
  "ndigits n = (if n < 10 then 1 else Suc (ndigits (n div 10)))"

declare ndigits.simps [simp del]

definition sign_of :: "int \<Rightarrow> int" where
  "sign_of m = (if m < 0 then -1 else 1)"

definition round_half_even :: "int \<Rightarrow> nat \<Rightarrow> int" where
  \<comment> \<open>drop the last \<open>d\<close> digits of \<open>n\<close>, rounding half to even\<close>
  "round_half_even n d =
     (let q = n div 10 ^ d; r = n mod 10 ^ d in
      if 2 * r > 10 ^ d \<or> (2 * r = 10 ^ d \<and> odd q) then q + 1 else q)"

definition dec_fix :: "int \<Rightarrow> int \<Rightarrow> decimal" where
  \<comment> \<open>\<^verbatim>\<open>Decimal._fix\<close>: round a finite result to the context precision\<close>
  "dec_fix m e =
     (let n = \<bar>m\<bar>; len = ndigits n in
      if len \<le> prec then Fin m e
      else
        let d = len - prec; c = round_half_even n d in
        if ndigits c > prec then Fin (sign_of m * (c div 10)) (e + int d + 1)
        else Fin (sign_of m * c) (e + int d))"

definition is_snan :: "decimal \<Rightarrow> bool" where
  "is_snan x = (case x of NaN s \<Rightarrow> s | _ \<Rightarrow> False)"

definition is_nan :: "decimal \<Rightarrow> bool" where
  "is_nan x = (case x of NaN _ \<Rightarrow> True | _ \<Rightarrow> False)"

definition check_nans :: "decimal \<Rightarrow> decimal \<Rightarrow> (pyexc + decimal) option" where
  \<comment> \<open>\<^verbatim>\<open>Decimal._check_nans\<close>: a signalling NaN raises, a quiet NaN is the result\<close>
  "check_nans a b =
     (if is_snan a \<or> is_snan b then Some (Inl InvalidOperation)
      else if is_nan a \<or> is_nan b then Some (Inr (NaN False))
      else None)"

fun add_nonan :: "decimal \<Rightarrow> decimal \<Rightarrow> pyexc + decimal" where
  "add_nonan (Inf s) (Inf t) = (if s \<noteq> t then Inl InvalidOperation else Inr (Inf s))"
| "add_nonan (Inf s) _ = Inr (Inf s)"
| "add_nonan _ (Inf t) = Inr (Inf t)"
| "add_nonan (Fin m1 e1) (Fin m2 e2) =
     (let e = min e1 e2 in
      Inr (dec_fix (m1 * 10 ^ nat (e1 - e) + m2 * 10 ^ nat (e2 - e)) e))"
| "add_nonan x _ = Inr x"

definition dec_add :: "decimal \<Rightarrow> decimal \<Rightarrow> pyexc + decimal" where
  "dec_add a b = (case check_nans a b of Some r \<Rightarrow> r | None \<Rightarrow> add_nonan a b)"

fun negate :: "decimal \<Rightarrow> decimal" where
  "negate (Fin m e) = Fin (- m) e"
| "negate (Inf s) = Inf (\<not> s)"
| "negate (NaN s) = NaN s"

definition dec_sub :: "decimal \<Rightarrow> decimal \<Rightarrow> pyexc + decimal" where
  "dec_sub a b = (case check_nans a b of Some r \<Rightarrow> r | None \<Rightarrow> add_nonan a (negate b))"

fun is_neg :: "decimal \<Rightarrow> bool" where
  "is_neg (Fin m e) = (m < 0)"
| "is_neg (Inf s) = s"
| "is_neg (NaN s) = False"

fun mul_nonan :: "decimal \<Rightarrow> decimal \<Rightarrow> pyexc + decimal" where
  "mul_nonan (Fin m1 e1) (Fin m2 e2) = Inr (dec_fix (m1 * m2) (e1 + e2))"
| "mul_nonan (Inf s) (Fin m e) =
     (if m = 0 then Inl InvalidOperation else Inr (Inf (s \<noteq> (m < 0))))"
| "mul_nonan (Fin m e) (Inf s) =
     (if m = 0 then Inl InvalidOperation else Inr (Inf (s \<noteq> (m < 0))))"
| "mul_nonan (Inf s) (Inf t) = Inr (Inf (s \<noteq> t))"
| "mul_nonan x _ = Inr x"

definition dec_mul :: "decimal \<Rightarrow> decimal \<Rightarrow> pyexc + decimal" where
  "dec_mul a b = (case check_nans a b of Some r \<Rightarrow> r | None \<Rightarrow> mul_nonan a b)"

fun strip_zeros :: "int \<Rightarrow> nat \<Rightarrow> nat" where
  \<comment> \<open>how many trailing zeros of \<open>c\<close> to drop, at most \<open>b\<close>: the loop that moves an
     exact quotient towards its ideal exponent\<close>
  "strip_zeros c 0 = 0"
| "strip_zeros c (Suc b) = (if c mod 10 = 0 then Suc (strip_zeros (c div 10) b) else 0)"

definition div_fin :: "int \<Rightarrow> int \<Rightarrow> int \<Rightarrow> int \<Rightarrow> decimal" where
  \<comment> \<open>\<^verbatim>\<open>Decimal.__truediv__\<close> on two finite operands, the divisor not zero\<close>
  "div_fin m1 e1 m2 e2 =
     (if m1 = 0 then dec_fix 0 (e1 - e2)
      else
        let n1 = \<bar>m1\<bar>; n2 = \<bar>m2\<bar>;
            shift = int (ndigits n2) - int (ndigits n1) + int prec + 1;
            ex = e1 - e2 - shift;
            num = (if shift \<ge> 0 then n1 * 10 ^ nat shift else n1);
            den = (if shift \<ge> 0 then n2 else n2 * 10 ^ nat (- shift));
            coeff = num div den; remainder = num mod den;
            s = sign_of m1 * sign_of m2
        in if remainder \<noteq> 0
           then dec_fix (s * (if coeff mod 5 = 0 then coeff + 1 else coeff)) ex
           else
             let k = strip_zeros coeff (nat (e1 - e2 - ex)) in
             dec_fix (s * (coeff div 10 ^ k)) (ex + int k))"

fun div_nonan :: "decimal \<Rightarrow> decimal \<Rightarrow> pyexc + decimal" where
  "div_nonan (Inf s) (Inf t) = Inl InvalidOperation"
| "div_nonan (Inf s) (Fin m e) = Inr (Inf (s \<noteq> (m < 0)))"
| "div_nonan (Fin m e) (Inf t) = Inr (Fin 0 (- 1000026))"
| "div_nonan (Fin m1 e1) (Fin m2 e2) =
     (if m2 = 0 then (if m1 = 0 then Inl InvalidOperation else Inl DivisionByZero)
      else Inr (div_fin m1 e1 m2 e2))"
| "div_nonan x _ = Inr x"

definition dec_div :: "decimal \<Rightarrow> decimal \<Rightarrow> pyexc + decimal" where
  "dec_div a b = (case check_nans a b of Some r \<Rightarrow> r | None \<Rightarrow> div_nonan a b)"

fun quantize_down :: "int \<Rightarrow> decimal \<Rightarrow> pyexc + decimal" where
  \<comment> \<open>\<^verbatim>\<open>x.quantize(Decimal(1).scaleb(ex), rounding=ROUND_DOWN)\<close>\<close>
  "quantize_down ex (NaN s) = (if s then Inl InvalidOperation else Inr (NaN False))"
| "quantize_down ex (Inf s) = Inl InvalidOperation"
| "quantize_down ex (Fin m e) =
     (if m = 0 then Inr (Fin 0 ex)
      else if int (ndigits \<bar>m\<bar>) + e - ex > int prec then Inl InvalidOperation
      else if e \<ge> ex then Inr (Fin (m * 10 ^ nat (e - ex)) ex)
      else Inr (Fin (sign_of m * (\<bar>m\<bar> div 10 ^ nat (ex - e))) ex))"

definition fin_less :: "int \<Rightarrow> int \<Rightarrow> int \<Rightarrow> int \<Rightarrow> bool" where
  "fin_less m1 e1 m2 e2 =
     (let e = min e1 e2 in m1 * 10 ^ nat (e1 - e) < m2 * 10 ^ nat (e2 - e))"

fun lt_nonan :: "decimal \<Rightarrow> decimal \<Rightarrow> bool" where
  "lt_nonan (Fin m1 e1) (Fin m2 e2) = fin_less m1 e1 m2 e2"
| "lt_nonan (Inf s) (Inf t) = (s \<and> \<not> t)"
| "lt_nonan (Inf s) _ = s"
| "lt_nonan _ (Inf t) = (\<not> t)"
| "lt_nonan _ _ = False"

definition dec_gt :: "decimal \<Rightarrow> decimal \<Rightarrow> pyexc + bool" where
  \<comment> \<open>\<^verbatim>\<open>a > b\<close>: an ordering comparison with a NaN raises\<close>
  "dec_gt a b = (if is_nan a \<or> is_nan b then Inl InvalidOperation else Inr (lt_nonan b a))"

definition dec_le :: "decimal \<Rightarrow> decimal \<Rightarrow> pyexc + bool" where
  \<comment> \<open>\<^verbatim>\<open>a <= b\<close>\<close>
  "dec_le a b = (if is_nan a \<or> is_nan b then Inl InvalidOperation else Inr (\<not> lt_nonan b a))"

definition zero :: decimal where
  \<comment> \<open>\<^verbatim>\<open>Decimal("0")\<close>\<close>
  "zero = Fin 0 0"


section \<open>The store\<close>

text \<open>
  The three tables of \<^verbatim>\<open>init_db\<close>. Amounts are stored as \<^verbatim>\<open>str(d)\<close> and read back with
  \<^verbatim>\<open>Decimal(text)\<close>, which gives the same decimal again, so a column holds a \<open>decimal\<close>.
  \<open>users\<close> is keyed by \<open>user_id\<close> and \<open>portfolio\<close> by \<open>(user_id, coin)\<close>, as their primary
  keys say; \<open>history\<close> is kept in insertion order, its \<open>AUTOINCREMENT\<close> id being the
  position of the row (no statement of the program deletes from it). The timestamp column
  defaults to \<^verbatim>\<open>CURRENT_TIMESTAMP\<close>: the clock reading, in seconds, at the insert.
\<close>

record hrow =
  h_id :: nat
  h_user :: int
  h_action :: string
  h_coin :: string
  h_amount :: decimal
  h_price :: decimal
  h_timestamp :: nat

record db =
  users :: "int \<rightharpoonup> decimal"
  portfolio :: "int \<times> string \<rightharpoonup> decimal"
  history :: "hrow list"

text \<open>
  \<^verbatim>\<open>get_connection\<close> opens a connection with \<^verbatim>\<open>isolation_level=None\<close>: autocommit, so every
  writing statement is a transaction of its own, and each helper opens its own connection.
  The world therefore records, beside the store, what the program did to the outside:
  each HTTP request to the price service and each committed write, with the store as any
  other connection sees it from then on. Storage errors of sqlite are not modelled.
\<close>

datatype event = HttpGet string | Commit db

record world =
  store :: db
  trace :: "event list"

definition commit :: "db \<Rightarrow> world \<Rightarrow> world" where
  "commit d w = \<lparr>store = d, trace = trace w @ [Commit d]\<rparr>"

definition INITIAL_USD_BALANCE :: decimal where
  "INITIAL_USD_BALANCE = Fin 1000000 (- 2)"

definition AVAILABLE_COINS :: "string \<rightharpoonup> string" where
  "AVAILABLE_COINS =
     [''btc'' \<mapsto> ''BTCUSDT'', ''eth'' \<mapsto> ''ETHUSDT'', ''bnb'' \<mapsto> ''BNBUSDT'',
      ''ada'' \<mapsto> ''ADAUSDT'', ''usdt'' \<mapsto> ''USDTUSDT'']"

definition ensure_user :: "int \<Rightarrow> world \<Rightarrow> world" where
  "ensure_user user_id w =
     (case users (store w) user_id of
        None \<Rightarrow> commit ((store w)\<lparr>users := (users (store w))(user_id \<mapsto> INITIAL_USD_BALANCE)\<rparr>) w
      | Some _ \<Rightarrow> w)"

definition get_usd_balance :: "int \<Rightarrow> world \<Rightarrow> decimal" where
  "get_usd_balance user_id w =
     (case users (store w) user_id of Some b \<Rightarrow> b | None \<Rightarrow> zero)"

definition update_usd_balance :: "int \<Rightarrow> decimal \<Rightarrow> world \<Rightarrow> world" where
  \<comment> \<open>an \<^verbatim>\<open>UPDATE\<close>: it changes the row when there is one\<close>
  "update_usd_balance user_id new_balance w =
     commit ((store w)\<lparr>users :=
        (if user_id \<in> dom (users (store w)) then (users (store w))(user_id \<mapsto> new_balance)
         else users (store w))\<rparr>) w"

definition get_portfolio :: "int \<Rightarrow> world \<Rightarrow> (string \<rightharpoonup> decimal)" where
  "get_portfolio user_id w = (\<lambda>coin. portfolio (store w) (user_id, coin))"

definition get_or_zero :: "(string \<rightharpoonup> decimal) \<Rightarrow> string \<Rightarrow> decimal" where
  \<comment> \<open>\<^verbatim>\<open>portfolio.get(coin, Decimal("0"))\<close>\<close>
  "get_or_zero d coin = (case d coin of Some a \<Rightarrow> a | None \<Rightarrow> zero)"

definition update_portfolio :: "int \<Rightarrow> string \<Rightarrow> decimal \<Rightarrow> world \<Rightarrow> pyexc + world" where
  "update_portfolio user_id coin amount w =
     (case dec_le amount zero of
        Inl e \<Rightarrow> Inl e
      | Inr True \<Rightarrow>
          Inr (commit ((store w)\<lparr>portfolio := (portfolio (store w))((user_id, coin) := None)\<rparr>) w)
      | Inr False \<Rightarrow>
          Inr (commit ((store w)\<lparr>portfolio := (portfolio (store w))((user_id, coin) \<mapsto> amount)\<rparr>) w))"

definition add_history ::
  "int \<Rightarrow> string \<Rightarrow> string \<Rightarrow> decimal \<Rightarrow> decimal \<Rightarrow> nat \<Rightarrow> world \<Rightarrow> world" where
  \<comment> \<open>\<open>now\<close> is the clock at the insert, the value of \<^verbatim>\<open>CURRENT_TIMESTAMP\<close>\<close>
  "add_history user_id action coin amount price now w =
     commit ((store w)\<lparr>history := history (store w) @
        [\<lparr>h_id = Suc (length (history (store w))), h_user = user_id, h_action = action,
          h_coin = coin, h_amount = amount, h_price = price, h_timestamp = now\<rparr>]\<rparr>) w"


section \<open>The price service\<close>

text \<open>
  What can come back from \<^verbatim>\<open>requests.get\<close> and the lines after it inside the \<^verbatim>\<open>try\<close> of
  \<^verbatim>\<open>get_price\<close>: the request raises (connection error, timeout), \<^verbatim>\<open>raise_for_status\<close>
  raises, \<^verbatim>\<open>resp.json()\<close> raises or the document has no \<^verbatim>\<open>get\<close>, or the document is an
  object whose \<^verbatim>\<open>"price"\<close> is absent or null, is something \<^verbatim>\<open>Decimal\<close> rejects, or is a
  decimal. The network is a function from the pair symbol to that outcome.
\<close>

datatype price_field = Missing | Rejected | Parsed decimal

datatype http_result = RequestFailed | BadStatus | BadJson | Body price_field

definition get_price :: "string \<Rightarrow> (string \<Rightarrow> http_result) \<Rightarrow> world \<Rightarrow> decimal option \<times> world" where
  "get_price symbol net w =
     (if symbol = ''USDTUSDT'' then (Some (Fin 1 0), w)
      else
        let w' = w\<lparr>trace := trace w @ [HttpGet symbol]\<rparr> in
        case net symbol of
          Body (Parsed price) \<Rightarrow> (Some price, w')
        | _ \<Rightarrow> (None, w'))"

section \<open>The trade handlers\<close>

text \<open>
  A handler gets the words of the command line after \<^verbatim>\<open>lower().split()\<close>, the user id, the
  \<^verbatim>\<open>Decimal\<close> constructor as a function from the text to the decimal it builds (\<open>None\<close> when
  it raises), the network and the clock. It returns the reply it sends, or the exception
  that leaves the handler, and the world. A reply carries the values the message is built
  from; rendering them as text is not modelled.
\<close>

datatype reply =
    Usage
  | UnknownCoin
  | BadNumber
  | NotEnoughUSD decimal
  | NotEnoughCoin decimal
  | NoPrice
  | Bought decimal decimal decimal
  | Sold decimal decimal decimal

definition positive_decimal :: "(string \<Rightarrow> decimal option) \<Rightarrow> string \<Rightarrow> decimal option" where
  \<comment> \<open>the \<^verbatim>\<open>try: d = Decimal(s); if d <= 0: raise ValueError; except: ...\<close> block\<close>
  "positive_decimal parse s =
     (case parse s of
        None \<Rightarrow> None
      | Some d \<Rightarrow> (case dec_le d zero of Inr False \<Rightarrow> Some d | _ \<Rightarrow> None))"

definition raising ::
  "pyexc + 'a \<Rightarrow> world \<Rightarrow> ('a \<Rightarrow> (pyexc + reply) \<times> world) \<Rightarrow> (pyexc + reply) \<times> world" where
  \<comment> \<open>a step that may raise: the exception leaves the handler with the world as it is\<close>
  "raising r w k = (case r of Inl e \<Rightarrow> (Inl e, w) | Inr x \<Rightarrow> k x)"

definition cmd_buy ::
  "(string \<Rightarrow> decimal option) \<Rightarrow> (string \<Rightarrow> http_result) \<Rightarrow> nat \<Rightarrow> int \<Rightarrow> string list \<Rightarrow> world
     \<Rightarrow> (pyexc + reply) \<times> world" where
  "cmd_buy parse net now user_id parts w =
     (case parts of
        [coin, usd_str] \<Rightarrow>
          (case AVAILABLE_COINS coin of
             None \<Rightarrow> (Inr UnknownCoin, w)
           | Some pair \<Rightarrow>
               (case positive_decimal parse usd_str of
                  None \<Rightarrow> (Inr BadNumber, w)
                | Some usd_amount \<Rightarrow>
                    let w1 = ensure_user user_id w;
                        balance = get_usd_balance user_id w1 in
                    raising (dec_gt usd_amount balance) w1 (\<lambda>too_much.
                    if too_much then (Inr (NotEnoughUSD balance), w1)
                    else
                      case get_price pair net w1 of
                        (None, w2) \<Rightarrow> (Inr NoPrice, w2)
                      | (Some price, w2) \<Rightarrow>
                          raising (dec_div usd_amount price) w2 (\<lambda>quotient.
                          raising (quantize_down (- 4) quotient) w2 (\<lambda>coin_amount.
                          raising (dec_sub balance usd_amount) w2 (\<lambda>new_balance.
                          let w3 = update_usd_balance user_id new_balance w2;
                              current_portfolio = get_portfolio user_id w3 in
                          raising (dec_add (get_or_zero current_portfolio coin) coin_amount) w3 (\<lambda>new_amount.
                          raising (update_portfolio user_id coin new_amount w3) w3 (\<lambda>w4.
                          let w5 = add_history user_id ''buy'' coin coin_amount price now w4 in
                          (Inr (Bought coin_amount usd_amount (get_usd_balance user_id w5)), w5)))))))))
      | _ \<Rightarrow> (Inr Usage, w))"

definition cmd_sell ::
  "(string \<Rightarrow> decimal option) \<Rightarrow> (string \<Rightarrow> http_result) \<Rightarrow> nat \<Rightarrow> int \<Rightarrow> string list \<Rightarrow> world
     \<Rightarrow> (pyexc + reply) \<times> world" where
  "cmd_sell parse net now user_id parts w =
     (case parts of
        [coin, coin_str] \<Rightarrow>
          (case AVAILABLE_COINS coin of
             None \<Rightarrow> (Inr UnknownCoin, w)
           | Some pair \<Rightarrow>
               (case positive_decimal parse coin_str of
                  None \<Rightarrow> (Inr BadNumber, w)
                | Some coin_amount \<Rightarrow>
                    let w1 = ensure_user user_id w;
                        portfolio = get_portfolio user_id w1;
                        have = get_or_zero portfolio coin in
                    raising (dec_gt coin_amount have) w1 (\<lambda>too_much.
                    if too_much then (Inr (NotEnoughCoin have), w1)
                    else
                      case get_price pair net w1 of
                        (None, w2) \<Rightarrow> (Inr NoPrice, w2)
                      | (Some price, w2) \<Rightarrow>
                          raising (dec_mul coin_amount price) w2 (\<lambda>product.
                          raising (quantize_down (- 2) product) w2 (\<lambda>usd_gain.
                          raising (dec_sub have coin_amount) w2 (\<lambda>new_amount.
                          raising (update_portfolio user_id coin new_amount w2) w2 (\<lambda>w3.
                          raising (dec_add (get_usd_balance user_id w3) usd_gain) w3 (\<lambda>new_balance.
                          let w4 = update_usd_balance user_id new_balance w3;
                              w5 = add_history user_id ''sell'' coin coin_amount price now w4 in
                          (Inr (Sold coin_amount usd_gain (get_usd_balance user_id w5)), w5)))))))))
      | _ \<Rightarrow> (Inr Usage, w))"


text \<open>
  The replies sorted into the failures of the specification: the usage message, the
  unknown coin and the wrong number are an invalid input.
\<close>

datatype failure = InvalidInput | InsufficientFunds | InsufficientHoldings | PriceUnavailable

fun failure_of :: "reply \<Rightarrow> failure option" where
  "failure_of Usage = Some InvalidInput"
| "failure_of UnknownCoin = Some InvalidInput"
| "failure_of BadNumber = Some InvalidInput"
| "failure_of (NotEnoughUSD b) = Some InsufficientFunds"
| "failure_of (NotEnoughCoin h) = Some InsufficientHoldings"
| "failure_of NoPrice = Some PriceUnavailable"
| "failure_of (Bought a u b) = None"
| "failure_of (Sold a u b) = None"

text \<open>
  The \<open>Validate\<close> step of both handlers: two words, the first a supported coin, the second
  a decimal greater than zero.
\<close>

definition well_formed :: "(string \<Rightarrow> decimal option) \<Rightarrow> string list \<Rightarrow> bool" where
  "well_formed parse parts =
     (case parts of
        [coin, s] \<Rightarrow> AVAILABLE_COINS coin \<noteq> None \<and> positive_decimal parse s \<noteq> None
      | _ \<Rightarrow> False)"

text \<open>
  The two handlers side by side, and what the sufficiency check of each compares the
  amount with: the balance for a buy, the holding of the coin for a sell, both read after
  \<^verbatim>\<open>ensure_user\<close>.
\<close>

datatype side = BuySide | SellSide

definition handler ::
  "side \<Rightarrow> (string \<Rightarrow> decimal option) \<Rightarrow> (string \<Rightarrow> http_result) \<Rightarrow> nat \<Rightarrow> int \<Rightarrow> string list
     \<Rightarrow> world \<Rightarrow> (pyexc + reply) \<times> world" where
  "handler sd = (case sd of BuySide \<Rightarrow> cmd_buy | SellSide \<Rightarrow> cmd_sell)"


text \<open>What a trace shows: the pairs asked of the price service, and the committed stores.\<close>

fun requested :: "event list \<Rightarrow> string list" where
  "requested [] = []"
| "requested (HttpGet symbol # es) = symbol # requested es"
| "requested (Commit d # es) = requested es"

fun commits :: "event list \<Rightarrow> db list" where
  "commits [] = []"
| "commits (HttpGet symbol # es) = commits es"
| "commits (Commit d # es) = d # commits es"

section \<open>Sequences of trades and the solvency invariant\<close>

text \<open>
  One incoming command with what it meets: the handler it is for, the \<^verbatim>\<open>Decimal\<close>
  constructor, the network and the clock at that moment, the user and the words. The bot
  handles commands one after the other; an exception that leaves a handler is logged by
  the dispatcher and the next command finds the store as the handler left it.
\<close>

record step =
  s_side :: side
  s_parse :: "string \<Rightarrow> decimal option"
  s_net :: "string \<Rightarrow> http_result"
  s_now :: nat
  s_user :: int
  s_parts :: "string list"

fun run :: "step list \<Rightarrow> world \<Rightarrow> world" where
  "run [] w = w"
| "run (x # xs) w =
     run xs (snd (handler (s_side x) (s_parse x) (s_net x) (s_now x) (s_user x) (s_parts x) w))"

definition nonneg :: "decimal \<Rightarrow> bool" where
  "nonneg x = (case x of Fin m e \<Rightarrow> 0 \<le> m | _ \<Rightarrow> False)"

definition positive :: "decimal \<Rightarrow> bool" where
  "positive x = (case x of Fin m e \<Rightarrow> 0 < m | _ \<Rightarrow> False)"

definition solvent :: "db \<Rightarrow> bool" where
  \<comment> \<open>every balance is a finite decimal \<open>\<ge> 0\<close>, every stored holding a finite decimal \<open>> 0\<close>\<close>
  "solvent d =
     ((\<forall>u b. users d u = Some b \<longrightarrow> nonneg b) \<and>
      (\<forall>k a. portfolio d k = Some a \<longrightarrow> positive a))"

definition good :: "world \<Rightarrow> bool" where
  \<comment> \<open>the store is solvent, and so is every store that was ever committed\<close>
  "good w = (solvent (store w) \<and> (\<forall>d \<in> set (commits (trace w)). solvent d))"

definition price_ok :: "(string \<Rightarrow> http_result) \<Rightarrow> string list \<Rightarrow> bool" where
  \<comment> \<open>the price the service has for the coin of this command, if any, is finite and \<open>\<ge> 0\<close>\<close>
  "price_ok net parts =
     (case parts of
        [coin, s] \<Rightarrow>
          (case AVAILABLE_COINS coin of
             Some pair \<Rightarrow> (case net pair of Body (Parsed p) \<Rightarrow> nonneg p | _ \<Rightarrow> True)
           | None \<Rightarrow> True)
      | _ \<Rightarrow> True)"

section \<open>Example inputs\<close>

text \<open>
  A store with no rows, a \<^verbatim>\<open>Decimal\<close> constructor on the literals the examples use, and
  some answers of the price service.
\<close>

definition fresh :: world where
  "fresh = \<lparr>store = \<lparr>users = Map.empty, portfolio = Map.empty, history = []\<rparr>, trace = []\<rparr>"

definition literal :: "string \<Rightarrow> decimal option" where
  "literal s =
     (if s = ''100'' then Some (Fin 100 0)
      else if s = ''0.0020'' then Some (Fin 20 (- 4))
      else if s = ''20000'' then Some (Fin 20000 0)
      else if s = ''0.99999999999999999999999999999''
        then Some (Fin 99999999999999999999999999999 (- 29))
      else None)"

definition zero_price :: "string \<Rightarrow> http_result" where
  "zero_price symbol = Body (Parsed (Fin 0 (- 8)))"


definition btc_at_50000 :: "string \<Rightarrow> http_result" where
  "btc_at_50000 symbol = Body (Parsed (Fin 5000000 (- 2)))"

definition btc_at_60000 :: "string \<Rightarrow> http_result" where
  "btc_at_60000 symbol = Body (Parsed (Fin 6000000 (- 2)))"


definition btc_at_1 :: "string \<Rightarrow> http_result" where
  "btc_at_1 symbol = Body (Parsed (Fin 1 0))"

definition btc_below_zero :: "string \<Rightarrow> http_result" where
  \<comment> \<open>the service answers with the price \<^verbatim>\<open>"-100"\<close>\<close>
  "btc_below_zero symbol = Body (Parsed (Fin (- 100) 0))"

definition overdrawn :: world where
  \<comment> \<open>a new user buys 100 USD of btc at 1, then sells 100 btc at the price -100\<close>
  "overdrawn =
     run [\<lparr>s_side = BuySide, s_parse = literal, s_net = btc_at_1, s_now = 0, s_user = 1,
            s_parts = [''btc'', ''100'']\<rparr>,
          \<lparr>s_side = SellSide, s_parse = literal, s_net = btc_below_zero, s_now = 1, s_user = 1,
            s_parts = [''btc'', ''100'']\<rparr>] fresh"

definition two_trades :: "step list" where
  \<comment> \<open>the example of the specification: buy 100 USD of btc at 50000.00, sell 0.0020 at 60000.00\<close>
  "two_trades =
     [\<lparr>s_side = BuySide, s_parse = literal, s_net = btc_at_50000, s_now = 5, s_user = 1,
        s_parts = [''btc'', ''100'']\<rparr>,
      \<lparr>s_side = SellSide, s_parse = literal, s_net = btc_at_60000, s_now = 6, s_user = 1,
        s_parts = [''btc'', ''0.0020'']\<rparr>]"

section \<open>Properties\<close>

subsection \<open>Helper facts\<close>

lemma positive_decimal_Fin:
  "positive_decimal parse s = Some (Fin m e) \<Longrightarrow> 0 < m"
  by (auto simp: positive_decimal_def dec_le_def zero_def fin_less_def Let_def is_nan_def
      min_def zero_less_mult_iff split: option.splits sum.splits if_splits bool.splits)

lemma dec_div_by_zero_iff:
  "dec_div (Fin mu eu) (Fin mp ep) = Inl DivisionByZero \<longleftrightarrow> mp = 0 \<and> mu \<noteq> 0"
  by (simp add: dec_div_def check_nans_def is_snan_def is_nan_def)

lemma requested_append [simp]: "requested (xs @ ys) = requested xs @ requested ys"
  by (induction xs rule: requested.induct) auto

lemma commits_append [simp]: "commits (xs @ ys) = commits xs @ commits ys"
  by (induction xs rule: commits.induct) auto


lemma get_price_world:
  "get_price pair net w = (p, w') \<Longrightarrow>
     store w' = store w \<and> trace w' = trace w @ (if pair = ''USDTUSDT'' then [] else [HttpGet pair])"
  by (auto simp: get_price_def Let_def split: if_splits http_result.splits price_field.splits)

lemma ensure_user_portfolio [simp]: "portfolio (store (ensure_user u w)) = portfolio (store w)"
  by (simp add: ensure_user_def commit_def split: option.splits)

lemma ensure_user_history [simp]: "history (store (ensure_user u w)) = history (store w)"
  by (simp add: ensure_user_def commit_def split: option.splits)


lemma ensure_user_idem [simp]: "ensure_user u (ensure_user u w) = ensure_user u w"
  by (simp add: ensure_user_def commit_def split: option.splits)

lemma ensure_user_existing: "users (store w) u \<noteq> None \<Longrightarrow> ensure_user u w = w"
  by (auto simp add: ensure_user_def split: option.splits)

lemma ensure_user_requested [simp]: "requested (trace (ensure_user u w)) = requested (trace w)"
  by (simp add: ensure_user_def commit_def split: option.splits)


lemma commit_trace [simp]: "trace (commit d w) = trace w @ [Commit d]"
  by (simp add: commit_def)

lemma commit_store [simp]: "store (commit d w) = d"
  by (simp add: commit_def)





lemma handler_invalid:
  assumes "handler sd parse net now uid parts w = (res, w')" and "\<not> well_formed parse parts"
  shows "w' = w \<and> (\<exists>r. res = Inr r \<and> failure_of r = Some InvalidInput)"
  using assms
  by (cases sd)
     (auto simp: handler_def cmd_buy_def cmd_sell_def well_formed_def
      split: list.splits option.splits)


lemma cmd_buy_Bought:
  assumes "cmd_buy parse net now uid parts w = (Inr (Bought ca ua nb), w')"
  shows "\<exists>c s pair price w2 q nbal na w4.
           parts = [c, s] \<and> AVAILABLE_COINS c = Some pair \<and> positive_decimal parse s = Some ua \<and>
           dec_gt ua (get_usd_balance uid (ensure_user uid w)) = Inr False \<and>
           get_price pair net (ensure_user uid w) = (Some price, w2) \<and>
           dec_div ua price = Inr q \<and> quantize_down (- 4) q = Inr ca \<and>
           dec_sub (get_usd_balance uid (ensure_user uid w)) ua = Inr nbal \<and>
           dec_add (get_or_zero (get_portfolio uid (update_usd_balance uid nbal w2)) c) ca = Inr na \<and>
           update_portfolio uid c na (update_usd_balance uid nbal w2) = Inr w4 \<and>
           w' = add_history uid ''buy'' c ca price now w4 \<and> nb = get_usd_balance uid w'"
  using assms
  by (auto simp: cmd_buy_def raising_def Let_def
      split: list.splits option.splits sum.splits if_splits prod.splits)

lemma cmd_sell_Sold:
  assumes "cmd_sell parse net now uid parts w = (Inr (Sold ca ug nb), w')"
  shows "\<exists>c s pair price w2 prod na w3 nbal.
           parts = [c, s] \<and> AVAILABLE_COINS c = Some pair \<and> positive_decimal parse s = Some ca \<and>
           dec_gt ca (get_or_zero (get_portfolio uid (ensure_user uid w)) c) = Inr False \<and>
           get_price pair net (ensure_user uid w) = (Some price, w2) \<and>
           dec_mul ca price = Inr prod \<and> quantize_down (- 2) prod = Inr ug \<and>
           dec_sub (get_or_zero (get_portfolio uid (ensure_user uid w)) c) ca = Inr na \<and>
           update_portfolio uid c na w2 = Inr w3 \<and>
           dec_add (get_usd_balance uid w3) ug = Inr nbal \<and>
           w' = add_history uid ''sell'' c ca price now (update_usd_balance uid nbal w3) \<and>
           nb = get_usd_balance uid w'"
  using assms
  by (auto simp: cmd_sell_def raising_def Let_def
      split: list.splits option.splits sum.splits if_splits prod.splits)

lemma cmd_buy_not_Sold: "cmd_buy parse net now uid parts w \<noteq> (Inr (Sold a b c), w')"
  by (auto simp: cmd_buy_def raising_def Let_def
      split: list.splits option.splits sum.splits if_splits prod.splits)

lemma cmd_sell_not_Bought: "cmd_sell parse net now uid parts w \<noteq> (Inr (Bought a b c), w')"
  by (auto simp: cmd_sell_def raising_def Let_def
      split: list.splits option.splits sum.splits if_splits prod.splits)




lemma update_portfolio_effect:
  "update_portfolio u c a w = Inr w' \<Longrightarrow>
     users (store w') = users (store w) \<and> history (store w') = history (store w) \<and>
     trace w' = trace w @ [Commit (store w')]"
  by (auto simp: update_portfolio_def split: sum.splits bool.splits)

lemma update_usd_balance_effect:
  "portfolio (store (update_usd_balance u b w)) = portfolio (store w) \<and>
   history (store (update_usd_balance u b w)) = history (store w) \<and>
   trace (update_usd_balance u b w) = trace w @ [Commit (store (update_usd_balance u b w))]"
  by (simp add: update_usd_balance_def)

lemma add_history_effect:
  "users (store (add_history u act c a p t w)) = users (store w) \<and>
   portfolio (store (add_history u act c a p t w)) = portfolio (store w) \<and>
   history (store (add_history u act c a p t w)) = history (store w) @
     [\<lparr>h_id = Suc (length (history (store w))), h_user = u, h_action = act,
       h_coin = c, h_amount = a, h_price = p, h_timestamp = t\<rparr>] \<and>
   trace (add_history u act c a p t w) = trace w @ [Commit (store (add_history u act c a p t w))]"
  by (simp add: add_history_def)

lemma get_price_commits:
  "get_price pair net w = (p, w2) \<Longrightarrow> commits (trace w2) = commits (trace w) \<and> store w2 = store w"
  by (auto dest!: get_price_world)






text \<open>Signs of the results of the arithmetic, and the writes that keep a store solvent.\<close>

lemma round_half_even_nonneg: "0 \<le> n \<Longrightarrow> 0 \<le> round_half_even n d"
  by (simp add: round_half_even_def Let_def pos_imp_zdiv_nonneg_iff)

lemma dec_fix_nonneg: "0 \<le> m \<Longrightarrow> nonneg (dec_fix m e)"
  using round_half_even_nonneg [of m]
  by (simp add: dec_fix_def Let_def nonneg_def sign_of_def pos_imp_zdiv_nonneg_iff)

lemma nonneg_FinE: "nonneg x \<Longrightarrow> (\<And>m e. x = Fin m e \<Longrightarrow> 0 \<le> m \<Longrightarrow> P) \<Longrightarrow> P"
  by (cases x) (auto simp: nonneg_def)

lemma nonneg_add:
  assumes "nonneg a" and "nonneg b"
  shows "\<exists>r. dec_add a b = Inr r \<and> nonneg r"
proof -
  from assms(1) obtain m1 e1 where a: "a = Fin m1 e1" "0 \<le> m1" by (rule nonneg_FinE)
  from assms(2) obtain m2 e2 where b: "b = Fin m2 e2" "0 \<le> m2" by (rule nonneg_FinE)
  have "0 \<le> m1 * 10 ^ nat (e1 - min e1 e2) + m2 * 10 ^ nat (e2 - min e1 e2)"
    using a(2) b(2) by simp
  then show ?thesis
    using a(1) b(1) by (simp add: dec_add_def check_nans_def is_snan_def is_nan_def Let_def dec_fix_nonneg)
qed

lemma nonneg_sub:
  assumes "nonneg a" and "nonneg b" and "dec_gt b a = Inr False"
  shows "\<exists>r. dec_sub a b = Inr r \<and> nonneg r"
proof -
  from assms(1) obtain m1 e1 where a: "a = Fin m1 e1" "0 \<le> m1" by (rule nonneg_FinE)
  from assms(2) obtain m2 e2 where b: "b = Fin m2 e2" "0 \<le> m2" by (rule nonneg_FinE)
  from assms(3) have "\<not> fin_less m1 e1 m2 e2"
    by (simp add: dec_gt_def is_nan_def a(1) b(1))
  then have "0 \<le> m1 * 10 ^ nat (e1 - min e1 e2) + (- m2) * 10 ^ nat (e2 - min e1 e2)"
    by (simp add: fin_less_def Let_def)
  then show ?thesis
    using a(1) b(1) by (simp add: dec_sub_def check_nans_def is_snan_def is_nan_def Let_def dec_fix_nonneg)
qed

lemma nonneg_mul:
  assumes "nonneg a" and "nonneg b"
  shows "\<exists>r. dec_mul a b = Inr r \<and> nonneg r"
proof -
  from assms(1) obtain m1 e1 where a: "a = Fin m1 e1" "0 \<le> m1" by (rule nonneg_FinE)
  from assms(2) obtain m2 e2 where b: "b = Fin m2 e2" "0 \<le> m2" by (rule nonneg_FinE)
  show ?thesis
    using a b by (simp add: dec_mul_def check_nans_def is_snan_def is_nan_def dec_fix_nonneg)
qed

lemma int_div_nonneg: "0 \<le> x \<Longrightarrow> 0 \<le> y \<Longrightarrow> 0 \<le> x div (y::int)"
  by (simp add: div_int_pos_iff)

lemma div_fin_nonneg:
  assumes "0 \<le> m1" and "0 \<le> m2"
  shows "nonneg (div_fin m1 e1 m2 e2)"
proof -
  have s: "sign_of m1 * sign_of m2 = 1" "\<bar>m1\<bar> = m1" "\<bar>m2\<bar> = m2"
    using assms by (simp_all add: sign_of_def)
  show ?thesis
    unfolding div_fin_def Let_def s
    using assms
    by (auto intro!: dec_fix_nonneg int_div_nonneg add_nonneg_nonneg mult_nonneg_nonneg)
qed

lemma nonneg_div:
  assumes "nonneg a" and "nonneg b" and "dec_div a b = Inr q"
  shows "nonneg q"
proof -
  from assms(1) obtain m1 e1 where a: "a = Fin m1 e1" "0 \<le> m1" by (rule nonneg_FinE)
  from assms(2) obtain m2 e2 where b: "b = Fin m2 e2" "0 \<le> m2" by (rule nonneg_FinE)
  show ?thesis
    using assms(3) a b div_fin_nonneg [of m1 m2 e1 e2]
    by (auto simp: dec_div_def check_nans_def is_snan_def is_nan_def split: if_splits)
qed

lemma nonneg_quantize:
  assumes "nonneg q" and "quantize_down ex q = Inr c"
  shows "nonneg c"
proof -
  from assms(1) obtain m e where q: "q = Fin m e" "0 \<le> m" by (rule nonneg_FinE)
  show ?thesis using assms(2) q
    by (auto simp: nonneg_def sign_of_def pos_imp_zdiv_nonneg_iff split: if_splits)
qed

lemma positive_decimal_checked:
  assumes "positive_decimal parse s = Some a" and "nonneg b" and "dec_gt a b = Inr False"
  shows "nonneg a"
proof -
  from assms(2) obtain m e where b: "b = Fin m e" by (rule nonneg_FinE)
  show ?thesis
  proof (cases a)
    case (Fin m1 e1)
    with assms(1) have "0 < m1" by (simp add: positive_decimal_Fin)
    with Fin show ?thesis by (simp add: nonneg_def)
  next
    case (Inf x)
    with assms b show ?thesis
      by (auto simp: positive_decimal_def dec_le_def dec_gt_def is_nan_def zero_def
          split: option.splits sum.splits bool.splits if_splits)
  next
    case (NaN x)
    with assms(3) show ?thesis by (simp add: dec_gt_def is_nan_def)
  qed
qed


lemma good_commit: "good w \<Longrightarrow> solvent d \<Longrightarrow> good (commit d w)"
  by (simp add: good_def)

lemma INITIAL_nonneg: "nonneg INITIAL_USD_BALANCE"
  by (simp add: INITIAL_USD_BALANCE_def nonneg_def)

lemma good_ensure_user: "good w \<Longrightarrow> good (ensure_user u w)"
  by (auto simp: ensure_user_def solvent_def INITIAL_nonneg good_def split: option.splits)

lemma balance_nonneg: "good w \<Longrightarrow> nonneg (get_usd_balance u (ensure_user u w))"
  by (auto simp: ensure_user_def get_usd_balance_def solvent_def INITIAL_nonneg good_def
      split: option.splits)

lemma holding_nonneg: "good w \<Longrightarrow> nonneg (get_or_zero (get_portfolio u w) c)"
proof (cases "portfolio (store w) (u, c)")
  case None
  then show ?thesis by (simp add: get_or_zero_def get_portfolio_def zero_def nonneg_def)
next
  case (Some a)
  assume "good w"
  with Some have "positive a" by (auto simp: good_def solvent_def)
  then have "nonneg a" by (cases a) (simp_all add: positive_def nonneg_def)
  with Some show ?thesis by (simp add: get_or_zero_def get_portfolio_def)
qed

lemma good_get_price: "good w \<Longrightarrow> get_price pair net w = (p, w2) \<Longrightarrow> good w2"
  by (auto simp: good_def dest!: get_price_world split: if_splits)

lemma good_update_usd_balance: "good w \<Longrightarrow> nonneg b \<Longrightarrow> good (update_usd_balance u b w)"
  by (auto simp: update_usd_balance_def solvent_def good_def)

lemma dec_le_zero: "dec_le (Fin m e) zero = Inr (m \<le> 0)"
  by (auto simp: dec_le_def zero_def is_nan_def fin_less_def Let_def zero_less_mult_iff)

lemma good_update_portfolio:
  assumes "good w" and "nonneg a"
  shows "\<exists>w'. update_portfolio u c a w = Inr w' \<and> good w'"
proof -
  from assms(2) obtain m e where a: "a = Fin m e" "0 \<le> m" by (rule nonneg_FinE)
  show ?thesis
  proof (cases "m = 0")
    case True
    have "solvent ((store w)\<lparr>portfolio := (portfolio (store w))((u, c) := None)\<rparr>)"
      using assms(1) by (auto simp: good_def solvent_def)
    then show ?thesis
      using a True assms(1) by (simp add: update_portfolio_def dec_le_zero good_commit)
  next
    case False
    then have "positive a" using a by (simp add: positive_def)
    then have "solvent ((store w)\<lparr>portfolio := (portfolio (store w))((u, c) \<mapsto> a)\<rparr>)"
      using assms(1) by (auto simp: good_def solvent_def)
    then show ?thesis
      using a False assms(1) by (simp add: update_portfolio_def dec_le_zero good_commit)
  qed
qed

lemma good_add_history: "good w \<Longrightarrow> good (add_history u act c a p t w)"
  by (auto simp: add_history_def solvent_def good_def)

lemma price_ok_price:
  assumes "price_ok net [c, s]" and "AVAILABLE_COINS c = Some pair"
    and "get_price pair net w = (Some p, w2)"
  shows "nonneg p"
  using assms
  by (auto simp: price_ok_def get_price_def Let_def nonneg_def
      split: if_splits http_result.splits price_field.splits)

lemma cmd_buy_good:
  assumes g: "good w" and ok: "price_ok net parts"
  shows "good (snd (cmd_buy parse net now uid parts w))"
proof (cases "well_formed parse parts")
  case False
  then show ?thesis
    using handler_invalid [of BuySide parse net now uid parts w] g
    by (simp add: handler_def prod_eq_iff)
next
  case True
  then obtain c s pair a where p: "parts = [c, s]" "AVAILABLE_COINS c = Some pair"
      "positive_decimal parse s = Some a"
    by (auto simp: well_formed_def split: list.splits)
  let ?w1 = "ensure_user uid w"
  let ?bal = "get_usd_balance uid ?w1"
  have g1: "good ?w1" using g by (rule good_ensure_user)
  have nb: "nonneg ?bal" using g by (rule balance_nonneg)
  obtain pr w2 where gp: "get_price pair net ?w1 = (pr, w2)" by (cases "get_price pair net ?w1")
  have g2: "good w2" using g1 gp by (rule good_get_price)
  show ?thesis
  proof (cases "dec_gt a ?bal = Inr False")
    case False
    then have "snd (cmd_buy parse net now uid parts w) = ?w1"
      by (auto simp: cmd_buy_def raising_def p Let_def split: sum.splits)
    then show ?thesis using g1 by simp
  next
    case chk: True
    have na: "nonneg a" using p(3) nb chk by (rule positive_decimal_checked)
    show ?thesis
    proof (cases pr)
      case None
      then show ?thesis using gp chk g2 by (simp add: cmd_buy_def raising_def p Let_def)
    next
      case (Some price)
      have np: "nonneg price" using ok gp Some p by (auto intro: price_ok_price)
      show ?thesis
      proof (cases "dec_div a price")
        case (Inl e)
        then show ?thesis using gp chk g2 Some by (simp add: cmd_buy_def raising_def p Let_def)
      next
        case (Inr q)
        have nq: "nonneg q" using na np Inr by (rule nonneg_div)
        show ?thesis
        proof (cases "quantize_down (- 4) q")
          case (Inl e)
          then show ?thesis using gp chk g2 Some \<open>dec_div a price = Inr q\<close>
            by (simp add: cmd_buy_def raising_def p Let_def)
        next
          case qd: (Inr ca)
          have nca: "nonneg ca" using nq qd by (rule nonneg_quantize)
          from nonneg_sub [OF nb na chk] obtain nbal where
            sub: "dec_sub ?bal a = Inr nbal" and nnb: "nonneg nbal" by blast
          let ?w3 = "update_usd_balance uid nbal w2"
          have g3: "good ?w3" using g2 nnb by (rule good_update_usd_balance)
          from nonneg_add [OF holding_nonneg [OF g3] nca] obtain na' where
            add: "dec_add (get_or_zero (get_portfolio uid ?w3) c) ca = Inr na'" and nna: "nonneg na'"
            by blast
          from good_update_portfolio [OF g3 nna] obtain w4 where
            up: "update_portfolio uid c na' ?w3 = Inr w4" and g4: "good w4" by blast
          have "snd (cmd_buy parse net now uid parts w) = add_history uid ''buy'' c ca price now w4"
            using gp chk Some \<open>dec_div a price = Inr q\<close> qd sub add up
            by (simp add: cmd_buy_def raising_def p Let_def)
          then show ?thesis using g4 by (simp add: good_add_history)
        qed
      qed
    qed
  qed
qed

lemma cmd_sell_good:
  assumes g: "good w" and ok: "price_ok net parts"
  shows "good (snd (cmd_sell parse net now uid parts w))"
proof (cases "well_formed parse parts")
  case False
  then show ?thesis
    using handler_invalid [of SellSide parse net now uid parts w] g
    by (simp add: handler_def prod_eq_iff)
next
  case True
  then obtain c s pair a where p: "parts = [c, s]" "AVAILABLE_COINS c = Some pair"
      "positive_decimal parse s = Some a"
    by (auto simp: well_formed_def split: list.splits)
  let ?w1 = "ensure_user uid w"
  let ?have = "get_or_zero (get_portfolio uid ?w1) c"
  have g1: "good ?w1" using g by (rule good_ensure_user)
  have nh: "nonneg ?have" using g1 by (rule holding_nonneg)
  obtain pr w2 where gp: "get_price pair net ?w1 = (pr, w2)" by (cases "get_price pair net ?w1")
  have g2: "good w2" using g1 gp by (rule good_get_price)
  show ?thesis
  proof (cases "dec_gt a ?have = Inr False")
    case False
    then have "snd (cmd_sell parse net now uid parts w) = ?w1"
      by (auto simp: cmd_sell_def raising_def p Let_def split: sum.splits)
    then show ?thesis using g1 by simp
  next
    case chk: True
    have na: "nonneg a" using p(3) nh chk by (rule positive_decimal_checked)
    show ?thesis
    proof (cases pr)
      case None
      then show ?thesis using gp chk g2 by (simp add: cmd_sell_def raising_def p Let_def)
    next
      case (Some price)
      have np: "nonneg price" using ok gp Some p by (auto intro: price_ok_price)
      from nonneg_mul [OF na np] obtain pd where
        mul: "dec_mul a price = Inr pd" and npd: "nonneg pd" by blast
      show ?thesis
      proof (cases "quantize_down (- 2) pd")
        case (Inl e)
        then show ?thesis using gp chk g2 Some mul
          by (simp add: cmd_sell_def raising_def p Let_def)
      next
        case qd: (Inr ug)
        have nug: "nonneg ug" using npd qd by (rule nonneg_quantize)
        from nonneg_sub [OF nh na chk] obtain na' where
          sub: "dec_sub ?have a = Inr na'" and nna: "nonneg na'" by blast
        from good_update_portfolio [OF g2 nna] obtain w3 where
          up: "update_portfolio uid c na' w2 = Inr w3" and g3: "good w3" by blast
        have ex: "users (store w3) uid \<noteq> None"
          using update_portfolio_effect [OF up] get_price_world [OF gp]
          by (auto simp: ensure_user_def commit_def split: option.splits)
        have nb3: "nonneg (get_usd_balance uid w3)"
          using balance_nonneg [OF g3, of uid] ensure_user_existing [OF ex] by simp
        from nonneg_add [OF nb3 nug] obtain nbal where
          add: "dec_add (get_usd_balance uid w3) ug = Inr nbal" and nnb: "nonneg nbal" by blast
        have "snd (cmd_sell parse net now uid parts w) =
            add_history uid ''sell'' c a price now (update_usd_balance uid nbal w3)"
          using gp chk Some mul qd sub up add
          by (simp add: cmd_sell_def raising_def p Let_def)
        then show ?thesis using g3 nnb by (simp add: good_add_history good_update_usd_balance)
      qed
    qed
  qed
qed

lemma run_good:
  "good w \<Longrightarrow> \<forall>x \<in> set steps. price_ok (s_net x) (s_parts x) \<Longrightarrow> good (run steps w)"
proof (induction steps arbitrary: w)
  case Nil
  then show ?case by simp
next
  case (Cons x xs)
  have "good (snd (handler (s_side x) (s_parse x) (s_net x) (s_now x) (s_user x) (s_parts x) w))"
    using Cons.prems cmd_buy_good cmd_sell_good
    by (cases "s_side x") (simp_all add: handler_def)
  then show ?case using Cons by simp
qed

lemma good_fresh: "good fresh"
  by (simp add: good_def fresh_def solvent_def)






lemma buy_100_fresh:
  "fst (cmd_buy literal btc_at_50000 5 1 [''btc'', ''100''] fresh) =
     Inr (Bought (Fin 20 (- 4)) (Fin 100 0) (Fin 990000 (- 2)))"
  by code_simp


subsection \<open>The price service\<close>




subsection \<open>A price of zero\<close>

text \<open>
  C10. \<^verbatim>\<open>get_price\<close> only turns an absent price into \<open>None\<close>; a price of exactly zero is
  passed on, and \<^verbatim>\<open>cmd_buy\<close> then divides the amount by it: the handler ends with
  \<^verbatim>\<open>DivisionByZero\<close>, after \<^verbatim>\<open>ensure_user\<close> and before any other write. The division of a
  positive amount by a finite price raises exactly when the price is zero.
\<close>

theorem buy_zero_price_divides_by_zero:
  assumes "AVAILABLE_COINS coin = Some pair" and "pair \<noteq> ''USDTUSDT''"
    and "positive_decimal parse s = Some (Fin mu eu)"
    and "dec_gt (Fin mu eu) (get_usd_balance uid (ensure_user uid w)) = Inr False"
    and "net pair = Body (Parsed (Fin 0 ep))"
  shows "fst (get_price pair net (ensure_user uid w)) = Some (Fin 0 ep) \<and>
         fst (cmd_buy parse net now uid [coin, s] w) = Inl DivisionByZero \<and>
         store (snd (cmd_buy parse net now uid [coin, s] w)) = store (ensure_user uid w) \<and>
         (\<forall>mp. (dec_div (Fin mu eu) (Fin mp ep) = Inl DivisionByZero) = (mp = 0))"
proof -
  have pos: "0 < mu" using assms(3) by (rule positive_decimal_Fin)
  have p: "get_price pair net (ensure_user uid w) =
      (Some (Fin 0 ep), (ensure_user uid w)\<lparr>trace := trace (ensure_user uid w) @ [HttpGet pair]\<rparr>)"
    using assms(2,5) by (simp add: get_price_def Let_def)
  have d: "dec_div (Fin mu eu) (Fin 0 ep) = Inl DivisionByZero"
    using pos by (simp add: dec_div_by_zero_iff)
  have run: "cmd_buy parse net now uid [coin, s] w =
      (Inl DivisionByZero, (ensure_user uid w)\<lparr>trace := trace (ensure_user uid w) @ [HttpGet pair]\<rparr>)"
    using assms(1,3,4) p d by (simp add: cmd_buy_def raising_def Let_def)
  show ?thesis using p run pos by (simp add: dec_div_by_zero_iff)
qed

theorem buy_zero_price_divides_by_zero_witness:
  "fst (cmd_buy literal zero_price 0 1 [''btc'', ''100''] fresh) = Inl DivisionByZero"
proof -
  have 1: "AVAILABLE_COINS ''btc'' = Some ''BTCUSDT''" by (simp add: AVAILABLE_COINS_def)
  have 2: "''BTCUSDT'' \<noteq> ''USDTUSDT''" by simp
  have 3: "positive_decimal literal ''100'' = Some (Fin 100 0)" by code_simp
  have 4: "dec_gt (Fin 100 0) (get_usd_balance 1 (ensure_user 1 fresh)) = Inr False" by code_simp
  have 5: "zero_price ''BTCUSDT'' = Body (Parsed (Fin 0 (- 8)))" by (simp add: zero_price_def)
  show ?thesis using buy_zero_price_divides_by_zero [where net = zero_price and now = 0, OF 1 2 3 4 5] by simp
qed

subsection \<open>Rejected trades\<close>



subsection \<open>The order of the steps\<close>




subsection \<open>The writes of a trade\<close>

text \<open>
  C5, as the handlers have it. A trade that succeeds commits three writes one after the
  other, each statement on a connection of its own in autocommit mode: for a buy the
  balance, then the holding, then the history row; for a sell the holding, then the
  balance, then the history row. The store after the first write differs from the one
  before the trade in that table only, and so on; the third is the final store. Nothing
  is checked again between the sufficiency check and the writes, and there is no
  transaction around them.
\<close>

theorem trade_writes_commit_one_by_one:
  assumes "handler sd parse net now uid parts w = (Inr r, w')" and "failure_of r = None"
  shows "\<exists>d1 d2 d3 row.
           commits (trace w') = commits (trace (ensure_user uid w)) @ [d1, d2, d3] \<and>
           store w' = d3 \<and>
           history d1 = history (store (ensure_user uid w)) \<and> history d2 = history d1 \<and>
           history d3 = history d2 @ [row] \<and> users d3 = users d2 \<and> portfolio d3 = portfolio d2 \<and>
           (case sd of
              BuySide \<Rightarrow> portfolio d1 = portfolio (store (ensure_user uid w)) \<and> users d2 = users d1
            | SellSide \<Rightarrow> users d1 = users (store (ensure_user uid w)) \<and> portfolio d2 = portfolio d1)"
proof (cases sd)
  case BuySide
  with assms have run: "cmd_buy parse net now uid parts w = (Inr r, w')"
    by (simp add: handler_def)
  from assms(2) run obtain ca ua nb where r: "r = Bought ca ua nb"
    by (cases r) (auto simp: cmd_buy_not_Sold)
  from cmd_buy_Bought [OF run [unfolded r]]
  obtain c s pair price w2 q nbal na w4 where
    gp: "get_price pair net (ensure_user uid w) = (Some price, w2)" and
    up: "update_portfolio uid c na (update_usd_balance uid nbal w2) = Inr w4" and
    w': "w' = add_history uid ''buy'' c ca price now w4"
    by blast
  note a = get_price_commits [OF gp] update_usd_balance_effect [of uid nbal w2]
    update_portfolio_effect [OF up] add_history_effect [of uid "''buy''" c ca price now w4]
  show ?thesis
    apply (rule exI [of _ "store (update_usd_balance uid nbal w2)"])
    apply (rule exI [of _ "store w4"])
    apply (rule exI [of _ "store w'"])
    using a BuySide w' by simp
next
  case SellSide
  with assms have run: "cmd_sell parse net now uid parts w = (Inr r, w')"
    by (simp add: handler_def)
  from assms(2) run obtain ca ug nb where r: "r = Sold ca ug nb"
    by (cases r) (auto simp: cmd_sell_not_Bought)
  from cmd_sell_Sold [OF run [unfolded r]]
  obtain c s pair price w2 na w3 nbal where
    gp: "get_price pair net (ensure_user uid w) = (Some price, w2)" and
    up: "update_portfolio uid c na w2 = Inr w3" and
    w': "w' = add_history uid ''sell'' c ca price now (update_usd_balance uid nbal w3)"
    by blast
  note a = get_price_commits [OF gp] update_portfolio_effect [OF up]
    update_usd_balance_effect [of uid nbal w3]
    add_history_effect [of uid "''sell''" c ca price now "update_usd_balance uid nbal w3"]
  show ?thesis
    apply (rule exI [of _ "store w3"])
    apply (rule exI [of _ "store (update_usd_balance uid nbal w3)"])
    apply (rule exI [of _ "store w'"])
    using a SellSide w' by simp
qed

theorem trade_writes_commit_one_by_one_witness:
  "failure_of (Bought (Fin 20 (- 4)) (Fin 100 0) (Fin 990000 (- 2))) = None \<and>
   (\<exists>d1 d2 d3 row.
      commits (trace (snd (cmd_buy literal btc_at_50000 5 1 [''btc'', ''100''] fresh))) =
        commits (trace (ensure_user 1 fresh)) @ [d1, d2, d3] \<and>
      history d3 = history d2 @ [row] \<and> portfolio d1 = portfolio (store (ensure_user 1 fresh)))"
proof -
  have run: "handler BuySide literal btc_at_50000 5 1 [''btc'', ''100''] fresh =
    (Inr (Bought (Fin 20 (- 4)) (Fin 100 0) (Fin 990000 (- 2))),
     snd (cmd_buy literal btc_at_50000 5 1 [''btc'', ''100''] fresh))"
    using buy_100_fresh by (simp add: handler_def prod_eq_iff)
  have f: "failure_of (Bought (Fin 20 (- 4)) (Fin 100 0) (Fin 990000 (- 2))) = None" by simp
  from trade_writes_commit_one_by_one [OF run f] f show ?thesis
    by (simp del: failure_of.simps) blast
qed

text \<open>
  The all-or-nothing transaction claimed for C5 is not there: in the buy of 100 USD of btc
  at 50000.00 by a new user, the second committed store (the first is the new user's row)
  has the balance already at 9900.00, no btc holding and no history row, a state with one
  of the three writes only; the holding of 0.0020 is there at the end.
\<close>

theorem partial_trade_observable_counterexample:
  "users (commits (trace (snd (cmd_buy literal btc_at_50000 5 1 [''btc'', ''100''] fresh))) ! 1) 1
     = Some (Fin 990000 (- 2)) \<and>
   portfolio (commits (trace (snd (cmd_buy literal btc_at_50000 5 1 [''btc'', ''100''] fresh))) ! 1)
     (1, ''btc'') = None \<and>
   history (commits (trace (snd (cmd_buy literal btc_at_50000 5 1 [''btc'', ''100''] fresh))) ! 1) = [] \<and>
   portfolio (store (snd (cmd_buy literal btc_at_50000 5 1 [''btc'', ''100''] fresh))) (1, ''btc'')
     = Some (Fin 20 (- 4))"
  by code_simp

subsection \<open>The history\<close>




subsection \<open>Solvency\<close>

text \<open>
  C3, under the condition the code needs. Start from the empty store and run any sequence
  of buy and sell commands, of any users, with any words, in which every price the
  service answers for the coin of a command is a finite decimal \<open>\<ge> 0\<close>. Then in the final
  store, and in every store committed on the way (the states another connection can see
  between and during the operations), every balance is a finite decimal \<open>\<ge> 0\<close> and
  every stored holding is a finite decimal \<open>> 0\<close>. And \<^verbatim>\<open>update_portfolio\<close> with an amount
  \<open>\<le> 0\<close> removes the row instead of storing it.
\<close>

theorem solvency_invariant:
  assumes "\<forall>x \<in> set steps. price_ok (s_net x) (s_parts x)"
  shows "solvent (store (run steps fresh)) \<and>
         (\<forall>d \<in> set (commits (trace (run steps fresh))). solvent d) \<and>
         (\<forall>u c a w. dec_le a zero = Inr True \<longrightarrow>
            (\<exists>w'. update_portfolio u c a w = Inr w' \<and> portfolio (store w') (u, c) = None))"
proof -
  have "good (run steps fresh)" using good_fresh assms by (rule run_good)
  then show ?thesis by (simp add: good_def update_portfolio_def)
qed

theorem solvency_invariant_witness:
  "price_ok btc_at_50000 [''btc'', ''100''] \<and> price_ok btc_at_60000 [''btc'', ''0.0020''] \<and>
   users (store (run two_trades fresh)) 1 = Some (Fin 1002000 (- 2)) \<and>
   nonneg (Fin 1002000 (- 2))"
proof -
  have p1: "price_ok btc_at_50000 [''btc'', ''100'']"
    and p2: "price_ok btc_at_60000 [''btc'', ''0.0020'']"
    by (simp_all add: price_ok_def AVAILABLE_COINS_def btc_at_50000_def btc_at_60000_def nonneg_def)
  then have ok: "\<forall>x \<in> set two_trades. price_ok (s_net x) (s_parts x)"
    by (simp add: two_trades_def)
  have u: "users (store (run two_trades fresh)) 1 = Some (Fin 1002000 (- 2))" by code_simp
  from solvency_invariant [OF ok] have "solvent (store (run two_trades fresh))" by simp
  with u have "nonneg (Fin 1002000 (- 2))" unfolding solvent_def by blast
  with p1 p2 u show ?thesis by simp
qed

text \<open>
  Without that condition C3 fails: nothing in \<^verbatim>\<open>get_price\<close> or \<^verbatim>\<open>cmd_sell\<close> looks at the
  sign of the price. A new user buys 100 USD of btc at the price 1 (balance 9900.00, 100
  btc) and sells the 100 btc when the service answers \<^verbatim>\<open>"-100"\<close>: the proceeds are
  -10000.00 and the stored balance becomes -100.00.
\<close>

theorem negative_price_counterexample:
  "users (store overdrawn) 1 = Some (Fin (- 10000) (- 2)) \<and> \<not> solvent (store overdrawn)"
proof -
  have u: "users (store overdrawn) 1 = Some (Fin (- 10000) (- 2))" by code_simp
  have "\<not> nonneg (Fin (- 10000) (- 2))" by (simp add: nonneg_def)
  with u have "\<not> solvent (store overdrawn)"
    unfolding solvent_def by blast
  with u show ?thesis by simp
qed

end
